theory Spec2Isabelle
  imports Complex_Main "HOL-Library.AList" "HOL-Library.Multiset"
begin

section \<open>Values read from the corpus file\<close>

text \<open>
  \<^verbatim>\<open>dataset.py\<close> reads its corpus with \<^verbatim>\<open>jsonlines\<close>: every line is a JSON object, and
  the values of its fields are arbitrary JSON values (\<^verbatim>\<open>Dict[str, Any]\<close>). Python's
  \<^verbatim>\<open>None\<close> is \<open>JNull\<close>. A number is a rational: the code only tests numbers for
  truthiness and equality. A \<open>char\<close> stands for one code point of a Python \<^verbatim>\<open>str\<close>.
  A JSON object is an association list read with \<open>map_of\<close>.
\<close>

datatype json =
    JNull
  | JBool bool
  | JNum rat
  | JStr string
  | JList "json list"
  | JObj "(string \<times> json) list"

type_synonym entry = "(string \<times> json) list"

text \<open>
  The exceptions of the model. \<open>MissingDataException\<close> is the class declared in
  \<^verbatim>\<open>dataset.py\<close>; the others are the built-in exceptions that the operations of the
  source raise on a value of the wrong shape, \<open>RetryError\<close> is what the retry decorator
  raises once its attempts are used up, and \<open>FileNotFoundError\<close> and \<open>PermissionError\<close>
  are what opening a file raises.
\<close>

datatype exn =
    MissingDataException string
  | TypeError
  | KeyError
  | IndexError
  | AttributeError
  | ValueError
  | ZeroDivisionError
  | RetryError
  | FileNotFoundError
  | PermissionError

definition bind_exn :: "exn + 'a \<Rightarrow> ('a \<Rightarrow> exn + 'b) \<Rightarrow> exn + 'b" where
  "bind_exn r f = (case r of Inl e \<Rightarrow> Inl e | Inr v \<Rightarrow> f v)"

text \<open>Python's truth value of a loaded JSON value (\<^verbatim>\<open>if article['title']\<close>).\<close>

fun truthy :: "json \<Rightarrow> bool" where
  "truthy JNull = False"
| "truthy (JBool b) = b"
| "truthy (JNum r) = (r \<noteq> 0)"
| "truthy (JStr s) = (s \<noteq> [])"
| "truthy (JList xs) = (xs \<noteq> [])"
| "truthy (JObj kvs) = (kvs \<noteq> [])"

text \<open>\<^verbatim>\<open>'k' in article\<close> and \<^verbatim>\<open>article['k']\<close>; the source reads a key only under the guard.\<close>

definition present :: "entry \<Rightarrow> string \<Rightarrow> bool" where
  "present a k = (case map_of a k of None \<Rightarrow> False | Some v \<Rightarrow> True)"

definition item :: "entry \<Rightarrow> string \<Rightarrow> json" where
  "item a k = (case map_of a k of None \<Rightarrow> JNull | Some v \<Rightarrow> v)"

text \<open>
  \<^verbatim>\<open>len(v)\<close> and the slice \<^verbatim>\<open>v[:n]\<close>. A dictionary has as many items as distinct keys
  and cannot be sliced (the slice is not a hashable key).
\<close>

fun py_len :: "json \<Rightarrow> exn + nat" where
  "py_len (JStr s) = Inr (length s)"
| "py_len (JList xs) = Inr (length xs)"
| "py_len (JObj kvs) = Inr (length (remdups (map fst kvs)))"
| "py_len JNull = Inl TypeError"
| "py_len (JBool b) = Inl TypeError"
| "py_len (JNum r) = Inl TypeError"

fun py_take :: "nat \<Rightarrow> json \<Rightarrow> exn + json" where
  "py_take n (JStr s) = Inr (JStr (take n s))"
| "py_take n (JList xs) = Inr (JList (take n xs))"
| "py_take n (JObj kvs) = Inl TypeError"
| "py_take n JNull = Inl TypeError"
| "py_take n (JBool b) = Inl TypeError"
| "py_take n (JNum r) = Inl TypeError"

text \<open>
  \<^verbatim>\<open>if title[-1] == '\n': title = title[:-1]\<close>, on the value the title branch has found
  truthy. A list is indexed and sliced like a string, a dictionary has no key \<^verbatim>\<open>-1\<close>,
  a number or a boolean is not subscriptable.
\<close>

fun strip_newline :: "json \<Rightarrow> exn + json" where
  "strip_newline (JStr s) =
     (if s = [] then Inl IndexError
      else Inr (JStr (if last s = CHR 0x0A then butlast s else s)))"
| "strip_newline (JList xs) =
     (if xs = [] then Inl IndexError
      else Inr (JList (if last xs = JStr [CHR 0x0A] then butlast xs else xs)))"
| "strip_newline (JObj kvs) = Inl KeyError"
| "strip_newline JNull = Inl TypeError"
| "strip_newline (JBool b) = Inl TypeError"
| "strip_newline (JNum r) = Inl TypeError"

section \<open>Extraction of the attributes of one article\<close>

definition get_title :: "entry \<Rightarrow> exn + json" where
  "get_title article =
     (if present article ''title'' \<and> present article ''book_title''
         \<and> truthy (item article ''title'')
      then Inr (item article ''title'')
      else if present article ''book_title'' \<and> \<not> present article ''title''
         \<and> truthy (item article ''book_title'')
      then strip_newline (item article ''book_title'')
      else if present article ''title'' \<and> truthy (item article ''title'')
      then strip_newline (item article ''title'')
      else Inr JNull)"

definition get_author :: "entry \<Rightarrow> json" where
  "get_author article =
     (if present article ''author'' \<and> present article ''authors''
         \<and> truthy (item article ''author'')
      then item article ''author''
      else if present article ''authors'' \<and> truthy (item article ''authors'')
      then item article ''authors''
      else if present article ''author'' \<and> truthy (item article ''author'')
      then item article ''author''
      else JNull)"

text \<open>
  One arm of the date chain: \<^verbatim>\<open>'k' in article and article['k'] and len(article['k']) >= n\<close>.
  \<^verbatim>\<open>and\<close> is short-circuit, so \<^verbatim>\<open>len\<close> is only called on a truthy value.
\<close>

definition long_enough :: "entry \<Rightarrow> string \<Rightarrow> nat \<Rightarrow> exn + bool" where
  "long_enough article k n =
     (if present article k \<and> truthy (item article k)
      then bind_exn (py_len (item article k)) (\<lambda>l. Inr (n \<le> l))
      else Inr False)"

definition get_date_published :: "entry \<Rightarrow> exn + json" where
  "get_date_published article =
     bind_exn (long_enough article ''date_published'' 10) (\<lambda>c1.
       if c1 then py_take 10 (item article ''date_published'')
       else bind_exn (long_enough article ''published'' 16) (\<lambda>c2.
         if c2 then py_take 16 (item article ''published'')
         else Inr JNull))"

definition get_url :: "entry \<Rightarrow> json" where
  "get_url article =
     (if present article ''link'' \<and> truthy (item article ''link'')
      then item article ''link''
      else if present article ''url'' \<and> truthy (item article ''url'')
      then item article ''url''
      else if present article ''doi'' \<and> truthy (item article ''doi'')
      then item article ''doi''
      else JNull)"

text \<open>
  \<^verbatim>\<open>', '.join([val['term'] for val in article['tags']])\<close>: the comprehension reads
  \<^verbatim>\<open>val['term']\<close> of every element first (the first one that fails raises), then
  \<^verbatim>\<open>join\<close> wants every item to be a string.
\<close>

fun tag_term :: "json \<Rightarrow> exn + json" where
  "tag_term (JObj kvs) = (case map_of kvs ''term'' of None \<Rightarrow> Inl KeyError | Some v \<Rightarrow> Inr v)"
| "tag_term (JStr s) = Inl TypeError"
| "tag_term (JList xs) = Inl TypeError"
| "tag_term JNull = Inl TypeError"
| "tag_term (JBool b) = Inl TypeError"
| "tag_term (JNum r) = Inl TypeError"

fun tag_terms :: "json list \<Rightarrow> exn + json list" where
  "tag_terms [] = Inr []"
| "tag_terms (v # vs) =
     bind_exn (tag_term v) (\<lambda>t. bind_exn (tag_terms vs) (\<lambda>ts. Inr (t # ts)))"

fun join_comma :: "json list \<Rightarrow> exn + string" where
  "join_comma [] = Inr []"
| "join_comma [JStr s] = Inr s"
| "join_comma (JStr s # v # vs) = bind_exn (join_comma (v # vs)) (\<lambda>r. Inr (s @ '', '' @ r))"
| "join_comma (v # vs) = Inl TypeError"

definition get_tags :: "entry \<Rightarrow> exn + json" where
  "get_tags article =
     (if present article ''tags'' \<and> truthy (item article ''tags'')
      then (case item article ''tags'' of
              JList vs \<Rightarrow> bind_exn (tag_terms vs) (\<lambda>ts.
                           bind_exn (join_comma ts) (\<lambda>s. Inr (JStr s)))
            | JStr s \<Rightarrow> Inr (JStr s)
            | JNull \<Rightarrow> Inr JNull
            | JBool b \<Rightarrow> Inr JNull
            | JNum r \<Rightarrow> Inr JNull
            | JObj kvs \<Rightarrow> Inr JNull)
      else Inr JNull)"

definition get_text :: "entry \<Rightarrow> exn + json" where
  "get_text article =
     (if present article ''text'' \<and> truthy (item article ''text'')
      then Inr (item article ''text'')
      else Inl (MissingDataException ''Entry has no text.''))"

type_synonym info = "json \<times> json \<times> json \<times> json \<times> json \<times> json"

definition extract_info_from_article :: "entry \<Rightarrow> exn + info" where
  "extract_info_from_article article =
     bind_exn (get_title article) (\<lambda>title.
     bind_exn (Inr (get_author article)) (\<lambda>author.
     bind_exn (get_date_published article) (\<lambda>date_published.
     bind_exn (Inr (get_url article)) (\<lambda>url.
     bind_exn (get_tags article) (\<lambda>tags.
     bind_exn (get_text article) (\<lambda>text.
       Inr (title, author, date_published, url, tags, text)))))))"

section \<open>The dataset object and what it is run against\<close>

text \<open>
  The attributes of \<^verbatim>\<open>Dataset\<close> that the methods below read or write.
  \<open>error_count_dict\<close> is the module-level dictionary of \<^verbatim>\<open>dataset.py\<close>, carried in
  the state because the ingestion pass updates it. \<open>embeddings\<close> is \<open>None\<close> until
  \<^verbatim>\<open>get_embeddings\<close> or \<^verbatim>\<open>load_embeddings\<close> creates the attribute. \<open>rng_pos\<close> counts the
  calls of \<^verbatim>\<open>random.random()\<close> made so far.
\<close>

record dataset =
  custom_sources :: "string list option"
  rate_limit_per_minute :: nat
  delay_in_seconds :: rat
  fraction_of_articles_to_use :: rat
  min_tokens_per_block :: nat
  max_tokens_per_block :: nat
  metadata :: "info list"
  embedding_strings :: "string list"
  articles_count :: "json \<rightharpoonup> nat"
  total_articles_count :: nat
  total_char_count :: nat
  total_word_count :: nat
  total_sentence_count :: nat
  total_block_count :: nat
  embeddings :: "rat list list option"
  error_count_dict :: "string \<rightharpoonup> nat"
  rng_pos :: nat

text \<open>
  What \<^verbatim>\<open>dataset.py\<close> imports and calls without defining it, taken as parameters:
  the splitter of \<^verbatim>\<open>text_splitter\<close> (\<^verbatim>\<open>TokenSplitter(min, max).split(text, signature)\<close> and
  \<^verbatim>\<open>split_into_sentences\<close>), Python's formatting of a value that is not a string inside
  an f-string, the stream of results of \<^verbatim>\<open>random.random()\<close>, the constant
  \<^verbatim>\<open>LEN_EMBEDDINGS\<close> of \<^verbatim>\<open>settings\<close>, the embedding service (the result of the
  \<open>k\<close>-th attempt of the request for block \<open>i\<close> with its text: a vector, or \<open>None\<close>
  when the call raises), and the order in which \<^verbatim>\<open>as_completed\<close> hands the futures over.
\<close>

record env =
  splitter_split :: "nat \<Rightarrow> nat \<Rightarrow> string \<Rightarrow> string \<Rightarrow> string list"
  split_into_sentences :: "string \<Rightarrow> string list"
  py_str :: "json \<Rightarrow> string"
  random_random :: "nat \<Rightarrow> rat"
  LEN_EMBEDDINGS :: nat
  Embedding_create :: "nat \<Rightarrow> nat \<Rightarrow> string \<Rightarrow> rat list option"
  as_completed :: "(exn + nat \<times> rat list) list \<Rightarrow> (exn + nat \<times> rat list) list"

definition initial_error_count_dict :: "string \<rightharpoonup> nat" where
  "initial_error_count_dict =
     [''Entry has no source.'' \<mapsto> 0,
      ''Entry has no title.'' \<mapsto> 0,
      ''Entry has no text.'' \<mapsto> 0,
      ''Entry has no URL.'' \<mapsto> 0,
      ''Entry has wrong citation level.'' \<mapsto> 0]"

text \<open>
  \<^verbatim>\<open>Dataset.__init__\<close>, with the module-level dictionary as it is when the module is
  loaded. \<^verbatim>\<open>60.0 / self.rate_limit_per_minute\<close> raises on a limit of zero.
\<close>

definition init_articles_count :: "string list option \<Rightarrow> (json \<rightharpoonup> nat)" where
  "init_articles_count cs =
     (case cs of None \<Rightarrow> Map.empty
      | Some sources \<Rightarrow> map_of (map (\<lambda>s. (JStr s, 0)) sources))"

definition new_dataset :: "string list option \<Rightarrow> nat \<Rightarrow> nat \<Rightarrow> nat \<Rightarrow> rat \<Rightarrow> dataset" where
  "new_dataset cs rate min_tokens max_tokens fraction =
     \<lparr> custom_sources = cs,
       rate_limit_per_minute = rate,
       delay_in_seconds = 60 / of_nat rate,
       fraction_of_articles_to_use = fraction,
       min_tokens_per_block = min_tokens,
       max_tokens_per_block = max_tokens,
       metadata = [],
       embedding_strings = [],
       articles_count = init_articles_count cs,
       total_articles_count = 0,
       total_char_count = 0,
       total_word_count = 0,
       total_sentence_count = 0,
       total_block_count = 0,
       embeddings = None,
       error_count_dict = initial_error_count_dict,
       rng_pos = 0 \<rparr>"

definition Dataset_init ::
  "string list option \<Rightarrow> nat \<Rightarrow> nat \<Rightarrow> nat \<Rightarrow> rat \<Rightarrow> exn + dataset" where
  "Dataset_init cs rate min_tokens max_tokens fraction =
     (if rate = 0 then Inl ZeroDivisionError
      else Inr (new_dataset cs rate min_tokens max_tokens fraction))"

section \<open>The ingestion pass\<close>

text \<open>
  The first lines of the loop body: a record without \<^verbatim>\<open>source\<close> gets one from the
  fallback rules, is skipped (\<^verbatim>\<open>continue\<close>) or is rejected.
\<close>

datatype source_outcome = Skip | Fail exn | Go entry

definition set_source :: "entry \<Rightarrow> string \<Rightarrow> source_outcome" where
  "set_source e s = Go (AList.update ''source'' (JStr s) e)"

definition resolve_source :: "entry \<Rightarrow> source_outcome" where
  "resolve_source e =
     (if \<not> present e ''source'' then
        if present e ''url'' \<and> item e ''url'' = JStr ''https://www.cold-takes.com/''
        then set_source e ''Cold Takes''
        else if present e ''question'' \<and> present e ''answer''
        then Skip
        else if present e ''article_url'' \<and> item e ''article_url'' = JStr ''https://www.gwern.net''
        then set_source e ''gwern.net''
        else if present e ''url'' \<and> item e ''url'' = JStr ''https://generative.ink/posts/''
        then set_source e ''generative.ink''
        else if present e ''url''
        then (case py_take 24 (item e ''url'') of
                Inl x \<Rightarrow> Fail x
              | Inr v \<Rightarrow> if v = JStr ''https://greaterwrong.com''
                        then set_source e ''greaterwrong.com''
                        else Fail (MissingDataException ''Entry has no source.''))
        else Fail (MissingDataException ''Entry has no source.'')
      else Go e)"

text \<open>
  A dictionary key: lists and dictionaries are unhashable, and \<^verbatim>\<open>True\<close>, \<^verbatim>\<open>1\<close> and
  \<^verbatim>\<open>1.0\<close> are one key.
\<close>

fun py_key :: "json \<Rightarrow> json option" where
  "py_key (JBool b) = Some (JNum (if b then 1 else 0))"
| "py_key (JList xs) = None"
| "py_key (JObj kvs) = None"
| "py_key v = Some v"

text \<open>\<^verbatim>\<open>entry['source'] not in self.custom_sources\<close>, on a list of strings.\<close>

fun in_sources :: "json \<Rightarrow> string list \<Rightarrow> bool" where
  "in_sources (JStr s) sources = (s \<in> set sources)"
| "in_sources v sources = False"

definition count_of :: "('k \<rightharpoonup> nat) \<Rightarrow> 'k \<Rightarrow> nat" where
  "count_of m k = (case m k of None \<Rightarrow> 0 | Some c \<Rightarrow> c)"

text \<open>The signature: \<^verbatim>\<open>f"Title: {title}, "\<close> and so on, then \<^verbatim>\<open>signature[:-2]\<close>.\<close>

definition py_format :: "env \<Rightarrow> json \<Rightarrow> string" where
  "py_format E v = (case v of JStr s \<Rightarrow> s | _ \<Rightarrow> py_str E v)"

definition signature_part :: "env \<Rightarrow> string \<Rightarrow> json \<Rightarrow> string" where
  "signature_part E label v = (if truthy v then label @ py_format E v @ '', '' else [])"

definition make_signature :: "env \<Rightarrow> json \<Rightarrow> json \<Rightarrow> json \<Rightarrow> json \<Rightarrow> string" where
  "make_signature E title author date_published url =
     (let signature = signature_part E ''Title: '' title
                    @ signature_part E ''Author: '' author
                    @ signature_part E ''Date published: '' date_published
                    @ signature_part E ''URL: '' url
      in if signature \<noteq> [] then take (length signature - 2) signature else signature)"

text \<open>\<^verbatim>\<open>len(text.split())\<close>: the number of maximal runs of characters that are not whitespace.\<close>

definition is_space :: "char \<Rightarrow> bool" where
  "is_space c = (of_char c \<in> set [9, 10, 11, 12, 13, 28, 29, 30, 31, 32, 133, 160 :: nat])"

fun word_count :: "bool \<Rightarrow> string \<Rightarrow> nat" where
  "word_count in_word [] = 0"
| "word_count in_word (c # cs) =
     (if is_space c then word_count False cs
      else (if in_word then 0 else 1) + word_count True cs)"

text \<open>
  The body of the \<^verbatim>\<open>try\<close> for one record: the dataset as the body leaves it, and the
  exception that leaves the body, if one does. \<^verbatim>\<open>continue\<close> leaves it with no exception.
  The article counters are incremented before the attributes are extracted.
  A text that is truthy and not a string reaches \<^verbatim>\<open>text_splitter.split\<close>, \<^verbatim>\<open>len(text)\<close>
  and \<^verbatim>\<open>text.split()\<close>, of which at least one raises a built-in exception.
\<close>

definition add_article :: "env \<Rightarrow> dataset \<Rightarrow> info \<Rightarrow> dataset \<times> exn option" where
  "add_article E d tup =
     (case tup of (title, author, date_published, url, tags, text) \<Rightarrow>
        let signature = make_signature E title author date_published url;
            d1 = d\<lparr> metadata := metadata d @ [(title, author, date_published, url, tags, text)] \<rparr>
        in (case text of
              JStr t \<Rightarrow>
                let blocks = splitter_split E (min_tokens_per_block d) (max_tokens_per_block d)
                               t signature
                in (d1\<lparr> embedding_strings := embedding_strings d1 @ blocks,
                        total_char_count := total_char_count d1 + length t,
                        total_word_count := total_word_count d1 + word_count False t,
                        total_sentence_count :=
                          total_sentence_count d1 + length (split_into_sentences E t),
                        total_block_count := total_block_count d1 + length blocks \<rparr>, None)
            | JNull \<Rightarrow> (d1, Some TypeError)
            | JBool b \<Rightarrow> (d1, Some TypeError)
            | JNum r \<Rightarrow> (d1, Some TypeError)
            | JList xs \<Rightarrow> (d1, Some AttributeError)
            | JObj kvs \<Rightarrow> (d1, Some AttributeError)))"

definition count_article :: "dataset \<Rightarrow> json \<Rightarrow> dataset" where
  "count_article d k =
     d\<lparr> articles_count := (articles_count d)(k \<mapsto> count_of (articles_count d) k + 1),
        total_articles_count := total_articles_count d + 1 \<rparr>"

definition filtered_out :: "dataset \<Rightarrow> json \<Rightarrow> bool" where
  "filtered_out d source =
     (case custom_sources d of None \<Rightarrow> False | Some sources \<Rightarrow> \<not> in_sources source sources)"

definition try_body :: "env \<Rightarrow> dataset \<Rightarrow> entry \<Rightarrow> dataset \<times> exn option" where
  "try_body E d e =
     (case resolve_source e of
        Skip \<Rightarrow> (d, None)
      | Fail x \<Rightarrow> (d, Some x)
      | Go entry \<Rightarrow>
          let random_number = random_random E (rng_pos d);
              d1 = d\<lparr> rng_pos := rng_pos d + 1 \<rparr>
          in if random_number > fraction_of_articles_to_use d1 then (d1, None)
             else if filtered_out d1 (item entry ''source'') then (d1, None)
             else (case py_key (item entry ''source'') of
                     None \<Rightarrow> (d1, Some TypeError)
                   | Some k \<Rightarrow>
                       let d2 = count_article d1 k
                       in (case extract_info_from_article entry of
                             Inl x \<Rightarrow> (d2, Some x)
                           | Inr tup \<Rightarrow> add_article E d2 tup)))"

text \<open>
  \<^verbatim>\<open>except MissingDataException as e\<close>: the reason string is the key, created at zero
  when it is new, then incremented.
\<close>

definition tally :: "dataset \<Rightarrow> string \<Rightarrow> dataset" where
  "tally d reason =
     d\<lparr> error_count_dict :=
          (error_count_dict d)(reason \<mapsto> count_of (error_count_dict d) reason + 1) \<rparr>"

text \<open>
  The loop over the records of the file. An exception other than
  \<^verbatim>\<open>MissingDataException\<close> is not caught and ends the pass.
\<close>

fun get_alignment_texts :: "env \<Rightarrow> dataset \<Rightarrow> entry list \<Rightarrow> exn + dataset" where
  "get_alignment_texts E d [] = Inr d"
| "get_alignment_texts E d (e # es) =
     (case try_body E d e of
        (d', None) \<Rightarrow> get_alignment_texts E d' es
      | (d', Some (MissingDataException reason)) \<Rightarrow> get_alignment_texts E (tally d' reason) es
      | (d', Some x) \<Rightarrow> Inl x)"

section \<open>Embedding the blocks\<close>

text \<open>
  The decorator \<^verbatim>\<open>@retry(wait=wait_random_exponential(min=1, max=20),
  stop=stop_after_attempt(5))\<close>: attempts are numbered from 1; after a failed attempt the
  stop condition \<^verbatim>\<open>attempt_number >= 5\<close> is tested, and when it holds the decorator
  raises instead of calling again. The time that the decorator waits between two
  attempts is chosen inside the library and is not part of the model.
\<close>

function retry_attempts :: "nat \<Rightarrow> nat \<Rightarrow> (nat \<Rightarrow> 'a option) \<Rightarrow> exn + 'a" where
  "retry_attempts stop attempt_number call =
     (case call attempt_number of
        Some v \<Rightarrow> Inr v
      | None \<Rightarrow> if stop \<le> attempt_number then Inl RetryError
                else retry_attempts stop (attempt_number + 1) call)"
  by pat_completeness auto
termination
  by (relation "measure (\<lambda>(stop, attempt_number, call). stop - attempt_number)") auto

definition get_embedding_at_index ::
  "env \<Rightarrow> string \<Rightarrow> nat \<Rightarrow> rat \<Rightarrow> exn + nat \<times> rat list" where
  "get_embedding_at_index E text i delay =
     bind_exn (retry_attempts 5 1 (\<lambda>k. Embedding_create E i k text)) (\<lambda>embedding.
       Inr (i, embedding))"

text \<open>
  The argument lists of the calls that \<^verbatim>\<open>get_embeddings\<close> submits:
  \<^verbatim>\<open>executor.submit(get_embedding_at_index, text, i)\<close> for every block, so that the third
  parameter \<^verbatim>\<open>delay_in_seconds\<close> has its default value \<^verbatim>\<open>0\<close>. The call sleeps for that
  parameter before each request (\<^verbatim>\<open>time.sleep(delay_in_seconds)\<close>).
\<close>

definition submitted_calls :: "dataset \<Rightarrow> (string \<times> nat \<times> rat) list" where
  "submitted_calls d = map (\<lambda>(i, text). (text, i, 0)) (enumerate 0 (embedding_strings d))"

definition sleep_before_request :: "string \<times> nat \<times> rat \<Rightarrow> rat" where
  "sleep_before_request c = (case c of (text, i, delay) \<Rightarrow> delay)"

definition run_call :: "env \<Rightarrow> string \<times> nat \<times> rat \<Rightarrow> exn + nat \<times> rat list" where
  "run_call E c = (case c of (text, i, delay) \<Rightarrow> get_embedding_at_index E text i delay)"

text \<open>\<^verbatim>\<open>np.zeros((n, LEN_EMBEDDINGS))\<close>, a matrix as the list of its rows.\<close>

definition zeros :: "nat \<Rightarrow> nat \<Rightarrow> rat list list" where
  "zeros n l = replicate n (replicate l 0)"

text \<open>
  \<^verbatim>\<open>self.embeddings[i] = embedding\<close>: the list must have the length of a row, or the
  length 1, which numpy broadcasts over the row.
\<close>

definition assign_row :: "nat \<Rightarrow> rat list list \<Rightarrow> nat \<Rightarrow> rat list \<Rightarrow> exn + rat list list" where
  "assign_row l m i v =
     (if length m \<le> i then Inl IndexError
      else if length v = l then Inr (m[i := v])
      else if length v = 1 then Inr (m[i := replicate l (hd v)])
      else Inl ValueError)"

text \<open>
  \<^verbatim>\<open>for future in as_completed(futures): i, embedding = future.result(); ...\<close>:
  \<^verbatim>\<open>result()\<close> raises what the call raised, which ends the loop.
\<close>

fun collect ::
  "nat \<Rightarrow> rat list list \<Rightarrow> (exn + nat \<times> rat list) list \<Rightarrow> rat list list \<times> exn option" where
  "collect l m [] = (m, None)"
| "collect l m (Inl x # futures) = (m, Some x)"
| "collect l m (Inr (i, v) # futures) =
     (case assign_row l m i v of
        Inl x \<Rightarrow> (m, Some x)
      | Inr m' \<Rightarrow> collect l m' futures)"

text \<open>
  \<^verbatim>\<open>get_embeddings\<close>: the dataset as the method leaves it and the exception that leaves
  the method, if one does. The matrix is the attribute \<^verbatim>\<open>self.embeddings\<close>, assigned
  before the first request and written in place.
\<close>

definition get_embeddings :: "env \<Rightarrow> dataset \<Rightarrow> dataset \<times> exn option" where
  "get_embeddings E d =
     (let m0 = zeros (length (embedding_strings d)) (LEN_EMBEDDINGS E);
          futures = map (run_call E) (submitted_calls d);
          r = collect (LEN_EMBEDDINGS E) m0 (as_completed E futures)
      in (d\<lparr> embeddings := Some (fst r) \<rparr>, snd r))"

section \<open>Saving and loading the matrix\<close>

text \<open>
  The file system as far as the two methods see it: the arrays stored, by path, and for
  every path the exception that creating and writing a file there raises, if it raises
  one (\<^verbatim>\<open>FileNotFoundError\<close> when the directory of the path does not exist,
  \<^verbatim>\<open>PermissionError\<close> when it may not be written).
\<close>

record files =
  content :: "string \<rightharpoonup> rat list list"
  write_error :: "string \<Rightarrow> exn option"

definition endswith :: "string \<Rightarrow> string \<Rightarrow> bool" where
  "endswith s suffix =
     (length suffix \<le> length s \<and> drop (length s - length suffix) s = suffix)"

text \<open>
  \<^verbatim>\<open>np.save(path, array)\<close> with a path given as a string opens, for writing, the path with
  \<^verbatim>\<open>.npy\<close> appended, unless the path ends with it already; when the file cannot be
  opened the exception leaves \<^verbatim>\<open>np.save\<close> and nothing is stored. \<^verbatim>\<open>np.load(path)\<close> opens the
  path as it is given.
\<close>

definition npy_path :: "string \<Rightarrow> string" where
  "npy_path path = (if endswith path ''.npy'' then path else path @ ''.npy'')"

definition np_save :: "files \<Rightarrow> string \<Rightarrow> rat list list \<Rightarrow> exn + files" where
  "np_save fs path m =
     (case write_error fs (npy_path path) of
        Some x \<Rightarrow> Inl x
      | None \<Rightarrow> Inr (fs\<lparr> content := (content fs)(npy_path path \<mapsto> m) \<rparr>))"

definition np_load :: "files \<Rightarrow> string \<Rightarrow> exn + rat list list" where
  "np_load fs path =
     (case content fs path of None \<Rightarrow> Inl FileNotFoundError | Some m \<Rightarrow> Inr m)"

definition save_embeddings :: "dataset \<Rightarrow> files \<Rightarrow> string \<Rightarrow> exn + files" where
  "save_embeddings d fs path =
     (case embeddings d of
        None \<Rightarrow> Inl AttributeError
      | Some m \<Rightarrow> np_save fs path m)"

definition load_embeddings :: "dataset \<Rightarrow> files \<Rightarrow> string \<Rightarrow> exn + dataset" where
  "load_embeddings d fs path =
     bind_exn (np_load fs path) (\<lambda>m. Inr (d\<lparr> embeddings := Some m \<rparr>))"

section \<open>Reference formulations and fixtures\<close>

text \<open>
  Reading an attribute from an ordered list of alternative field names, written as
  recursion over the list of names, for comparison with the chains of
  \<^verbatim>\<open>extract_info_from_article\<close>: the value of the first field that is present and
  truthy; the value of the first field that is present; and, for dates, the first field
  that is present, truthy and long enough, cut to its length.
\<close>

fun first_truthy :: "entry \<Rightarrow> string list \<Rightarrow> json" where
  "first_truthy a [] = JNull"
| "first_truthy a (k # ks) =
     (if present a k \<and> truthy (item a k) then item a k else first_truthy a ks)"

fun first_present :: "entry \<Rightarrow> string list \<Rightarrow> json option" where
  "first_present a [] = None"
| "first_present a (k # ks) = (if present a k then Some (item a k) else first_present a ks)"

fun first_long :: "entry \<Rightarrow> (string \<times> nat) list \<Rightarrow> exn + json" where
  "first_long a [] = Inr JNull"
| "first_long a ((k, n) # ks) =
     (if present a k \<and> truthy (item a k)
      then (case py_len (item a k) of
              Inl x \<Rightarrow> Inl x
            | Inr l \<Rightarrow> if n \<le> l then py_take n (item a k) else first_long a ks)
      else first_long a ks)"

text \<open>
  The title by the first field present among \<^verbatim>\<open>title\<close>, \<^verbatim>\<open>book_title\<close>: nothing when
  that field is empty, the field as it is when both names are present, and without a
  final newline otherwise.
\<close>

definition title_of_first_present :: "entry \<Rightarrow> exn + json" where
  "title_of_first_present a =
     (case first_present a [''title'', ''book_title''] of
        None \<Rightarrow> Inr JNull
      | Some t \<Rightarrow> if \<not> truthy t then Inr JNull
                  else if present a ''title'' \<and> present a ''book_title'' then Inr t
                  else strip_newline t)"

text \<open>
  The shapes of the fields that the ingestion pass handles without a built-in exception.
  \<^item> \<^verbatim>\<open>source\<close> is absent or hashable: a string, a number, a boolean or null.
  \<^item> When \<^verbatim>\<open>source\<close> is absent, \<^verbatim>\<open>url\<close> is absent or a string (null is not enough: the
    fallback rules slice it); when \<^verbatim>\<open>source\<close> is present, \<^verbatim>\<open>url\<close> may hold anything.
  \<^item> \<^verbatim>\<open>title\<close>, \<^verbatim>\<open>book_title\<close>, \<^verbatim>\<open>date_published\<close>, \<^verbatim>\<open>published\<close> and \<^verbatim>\<open>text\<close> are each
    absent, null or a string.
  \<^item> \<^verbatim>\<open>tags\<close> is anything but a list, or a list of objects that each hold a string under
    \<^verbatim>\<open>term\<close>.
  \<^item> \<^verbatim>\<open>author\<close>, \<^verbatim>\<open>authors\<close>, \<^verbatim>\<open>link\<close>, \<^verbatim>\<open>doi\<close>, \<^verbatim>\<open>question\<close>, \<^verbatim>\<open>answer\<close> and \<^verbatim>\<open>article_url\<close>
    may hold anything.
\<close>

fun str_or_null :: "json option \<Rightarrow> bool" where
  "str_or_null None = True"
| "str_or_null (Some JNull) = True"
| "str_or_null (Some (JStr s)) = True"
| "str_or_null (Some v) = False"

fun str_if_present :: "json option \<Rightarrow> bool" where
  "str_if_present None = True"
| "str_if_present (Some (JStr s)) = True"
| "str_if_present (Some v) = False"

fun hashable_if_present :: "json option \<Rightarrow> bool" where
  "hashable_if_present None = True"
| "hashable_if_present (Some v) = (case py_key v of None \<Rightarrow> False | Some k \<Rightarrow> True)"

fun term_object :: "json \<Rightarrow> bool" where
  "term_object (JObj kvs) = (case map_of kvs ''term'' of Some (JStr s) \<Rightarrow> True | _ \<Rightarrow> False)"
| "term_object v = False"

fun tags_ok :: "json option \<Rightarrow> bool" where
  "tags_ok (Some (JList vs)) = list_all term_object vs"
| "tags_ok v = True"

definition well_typed :: "entry \<Rightarrow> bool" where
  "well_typed e =
     (hashable_if_present (map_of e ''source'')
      \<and> (present e ''source'' \<or> str_if_present (map_of e ''url''))
      \<and> str_or_null (map_of e ''title'')
      \<and> str_or_null (map_of e ''book_title'')
      \<and> str_or_null (map_of e ''date_published'')
      \<and> str_or_null (map_of e ''published'')
      \<and> tags_ok (map_of e ''tags'')
      \<and> str_or_null (map_of e ''text''))"

text \<open>The exceptions that the \<^verbatim>\<open>except\<close> clause of the pass handles, and no exception.\<close>

fun caught :: "exn option \<Rightarrow> bool" where
  "caught None = True"
| "caught (Some (MissingDataException reason)) = True"
| "caught (Some x) = False"


text \<open>Saving to a path and loading from that same path.\<close>

definition save_then_load :: "dataset \<Rightarrow> files \<Rightarrow> string \<Rightarrow> exn + dataset" where
  "save_then_load d fs path =
     bind_exn (save_embeddings d fs path) (\<lambda>fs'. load_embeddings d fs' path)"

text \<open>
  Concrete inputs. The service of \<open>example_env\<close> fails four times and answers at the
  fifth attempt; that of \<open>failing_env\<close> never answers for block 0. \<^verbatim>\<open>as_completed\<close>
  hands the futures over in reverse order of submission.
\<close>

definition example_env :: env where
  "example_env =
     \<lparr> splitter_split = (\<lambda>lo hi text signature. [signature @ ''|'' @ text]),
       split_into_sentences = (\<lambda>text. [text]),
       py_str = (\<lambda>v. ''?''),
       random_random = (\<lambda>n. 0),
       LEN_EMBEDDINGS = 2,
       Embedding_create =
         (\<lambda>i k text. if k < 5 then None else Some [of_nat i, of_nat (length text)]),
       as_completed = rev \<rparr>"

definition failing_env :: env where
  "failing_env =
     example_env\<lparr> Embedding_create := (\<lambda>i k text. if i = 0 then None else Some [1, 1]) \<rparr>"

definition default_dataset :: dataset where
  "default_dataset = new_dataset None 3500 400 600 1"

definition two_blocks :: dataset where
  "two_blocks = default_dataset\<lparr> embedding_strings := [''a'', ''bc''] \<rparr>"

definition one_vector :: dataset where
  "one_vector = default_dataset\<lparr> embeddings := Some [[1, 2]] \<rparr>"

definition empty_files :: files where
  "empty_files =
     \<lparr> content = Map.empty,
       write_error = (\<lambda>path. if take 12 path = ''no_such_dir/''
                              then Some FileNotFoundError else None) \<rparr>"

definition record_without_text :: entry where
  "record_without_text = [(''source'', JStr ''arxiv''), (''title'', JStr ''T'')]"

definition valid_record :: entry where
  "valid_record = [(''source'', JStr ''arxiv''), (''text'', JStr ''hello there'')]"

definition record_without_source :: entry where
  "record_without_source = [(''title'', JStr ''T''), (''text'', JStr ''hello there'')]"

definition record_null_source :: entry where
  "record_null_source = [(''source'', JNull), (''url'', JNull), (''text'', JStr ''t'')]"

definition record_null_url :: entry where
  "record_null_url = [(''url'', JNull), (''text'', JStr ''hello there'')]"

definition record_numeric_url :: entry where
  "record_numeric_url = [(''url'', JNum 5), (''text'', JStr ''hello there'')]"

definition record_empty_link :: entry where
  "record_empty_link =
     [(''link'', JStr []), (''url'', JStr ''https://x.org''), (''text'', JStr ''t'')]"

definition printout_record :: entry where
  "printout_record = [(''question'', JStr ''q''), (''answer'', JStr ''a''), (''text'', JStr ''t'')]"

definition cold_takes_printout :: entry where
  "cold_takes_printout =
     [(''url'', JStr ''https://www.cold-takes.com/''), (''question'', JStr ''q''),
      (''answer'', JStr ''a''), (''text'', JStr ''t'')]"

section \<open>Lemmas about the ingestion pass\<close>

lemma try_body_missing_data:
  "try_body E d e = (d', Some (MissingDataException r)) \<Longrightarrow>
     metadata d' = metadata d \<and> embedding_strings d' = embedding_strings d"
  by (auto simp: try_body_def add_article_def count_article_def Let_def
      split: source_outcome.splits if_splits option.splits sum.splits prod.splits json.splits)

lemma tally_keeps: "metadata (tally d r) = metadata d" "embedding_strings (tally d r) = embedding_strings d"
  by (simp_all add: tally_def)


lemma author_first_truthy: "get_author a = first_truthy a [''author'', ''authors'']"
  by (simp add: get_author_def)

lemma url_first_truthy: "get_url a = first_truthy a [''link'', ''url'', ''doi'']"
  by (simp add: get_url_def)

lemma date_first_long: "get_date_published a = first_long a [(''date_published'', 10), (''published'', 16)]"
  by (auto simp add: get_date_published_def long_enough_def bind_exn_def split: sum.splits)


lemma title_first_present: "get_title a = title_of_first_present a"
  by (simp add: get_title_def title_of_first_present_def)

lemma text_first_truthy:
  "get_text a =
     (if truthy (first_truthy a [''text'']) then Inr (first_truthy a [''text''])
      else Inl (MissingDataException ''Entry has no text.''))"
  by (simp add: get_text_def)

lemma tags_single_field: "get_tags a = get_tags [(''tags'', first_truthy a [''tags''])]"
  by (simp add: get_tags_def present_def item_def)

lemma str_or_null_cases:
  "str_or_null (map_of e k) \<Longrightarrow> \<not> truthy (item e k) \<or> (\<exists>s. item e k = JStr s \<and> s \<noteq> [])"
  by (cases "map_of e k" rule: str_or_null.cases) (auto simp: item_def)

lemma get_title_ok:
  assumes "str_or_null (map_of e ''title'')" "str_or_null (map_of e ''book_title'')"
  shows "\<exists>t. get_title e = Inr t"
  using str_or_null_cases [OF assms(1)] str_or_null_cases [OF assms(2)]
  by (auto simp: get_title_def)

lemma long_enough_ok:
  assumes "str_or_null (map_of e k)"
  shows "long_enough e k n = Inr False \<or> (long_enough e k n = Inr True \<and> (\<exists>s. item e k = JStr s))"
  using str_or_null_cases [OF assms]
  by (auto simp: long_enough_def bind_exn_def)

lemma get_date_published_ok:
  assumes "str_or_null (map_of e ''date_published'')" "str_or_null (map_of e ''published'')"
  shows "\<exists>t. get_date_published e = Inr t"
  using long_enough_ok [OF assms(1), of 10] long_enough_ok [OF assms(2), of 16]
  by (auto simp: get_date_published_def bind_exn_def)

lemma tag_terms_ok:
  "list_all term_object vs \<Longrightarrow> \<exists>ss. tag_terms vs = Inr (map JStr ss)"
proof (induction vs)
  case Nil
  show ?case by simp
next
  case (Cons v vs)
  then obtain ss where ss: "tag_terms vs = Inr (map JStr ss)" by auto
  from Cons.prems obtain s where s: "tag_term v = Inr (JStr s)"
    by (cases v rule: term_object.cases) (auto split: option.splits json.splits)
  have "tag_terms (v # vs) = Inr (map JStr (s # ss))"
    using s ss by (simp add: bind_exn_def)
  then show ?case by blast
qed

lemma join_comma_ok: "\<exists>r. join_comma (map JStr ss) = Inr r"
proof (induction ss)
  case Nil
  show ?case by simp
next
  case (Cons s ss)
  then show ?case by (cases ss) (auto simp: bind_exn_def)
qed

lemma get_tags_ok:
  assumes "tags_ok (map_of e ''tags'')"
  shows "\<exists>t. get_tags e = Inr t"
proof (cases "map_of e ''tags''")
  case None
  then show ?thesis by (simp add: get_tags_def present_def)
next
  case (Some v)
  show ?thesis
  proof (cases v)
    case (JList vs)
    then have "list_all term_object vs" using assms Some by simp
    then obtain ss where ss: "tag_terms vs = Inr (map JStr ss)" using tag_terms_ok by blast
    obtain r where r: "join_comma (map JStr ss) = Inr r" using join_comma_ok by blast
    show ?thesis using Some JList ss r
      by (simp add: get_tags_def present_def item_def bind_exn_def)
  qed (use Some in \<open>simp_all add: get_tags_def present_def item_def\<close>)
qed

lemma get_text_ok:
  assumes "str_or_null (map_of e ''text'')"
  shows "get_text e = Inl (MissingDataException ''Entry has no text.'')
       \<or> (\<exists>s. get_text e = Inr (JStr s))"
  using str_or_null_cases [OF assms]
  by (auto simp: get_text_def)

lemma extract_ok:
  assumes "well_typed e"
  shows "extract_info_from_article e = Inl (MissingDataException ''Entry has no text.'')
       \<or> (\<exists>t a p u g s. extract_info_from_article e = Inr (t, a, p, u, g, JStr s))"
proof -
  obtain t where t: "get_title e = Inr t"
    using assms get_title_ok by (auto simp: well_typed_def)
  obtain p where p: "get_date_published e = Inr p"
    using assms get_date_published_ok by (auto simp: well_typed_def)
  obtain g where g: "get_tags e = Inr g"
    using assms get_tags_ok by (auto simp: well_typed_def)
  have "str_or_null (map_of e ''text'')" using assms by (simp add: well_typed_def)
  from get_text_ok [OF this] show ?thesis
    by (auto simp: extract_info_from_article_def bind_exn_def t p g)
qed

lemma add_article_text: "snd (add_article E d (t, a, p, u, g, JStr s)) = None"
  by (simp add: add_article_def Let_def)



lemma present_update: "present (AList.update k v e) k' = (k' = k \<or> present e k')"
  by (simp add: present_def update_conv')

lemma item_update: "item (AList.update k v e) k' = (if k' = k then v else item e k')"
  by (simp add: item_def update_conv')

lemma well_typed_update: "well_typed e \<Longrightarrow> well_typed (AList.update ''source'' (JStr s) e)"
  by (simp add: well_typed_def update_conv' present_def)

lemma str_if_present_cases:
  "str_if_present (map_of e k) \<Longrightarrow> \<not> present e k \<or> (\<exists>s. item e k = JStr s)"
  by (cases "map_of e k" rule: str_if_present.cases) (auto simp: item_def present_def)

lemma hashable_if_present_cases:
  "hashable_if_present (map_of e k) \<Longrightarrow> present e k \<Longrightarrow> \<exists>key. py_key (item e k) = Some key"
  by (cases "map_of e k") (auto simp: item_def present_def split: option.splits)

lemma resolve_source_ok:
  assumes "well_typed e"
  shows "case resolve_source e of
           Skip \<Rightarrow> True
         | Fail x \<Rightarrow> x = MissingDataException ''Entry has no source.''
         | Go e' \<Rightarrow> well_typed e' \<and> (\<exists>key. py_key (item e' ''source'') = Some key)"
proof (cases "present e ''source''")
  case True
  have "hashable_if_present (map_of e ''source'')" using assms by (simp add: well_typed_def)
  from hashable_if_present_cases [OF this True] True assms show ?thesis
    by (auto simp: resolve_source_def)
next
  case False
  then have "str_if_present (map_of e ''url'')" using assms by (simp add: well_typed_def)
  from str_if_present_cases [OF this] False assms show ?thesis
    by (auto simp: resolve_source_def set_source_def well_typed_update item_update)
qed

lemma try_body_caught:
  assumes "well_typed e"
  shows "caught (snd (try_body E d e))"
proof (cases "resolve_source e")
  case Skip
  then show ?thesis by (simp add: try_body_def)
next
  case (Fail x)
  then show ?thesis using resolve_source_ok [OF assms] by (simp add: try_body_def)
next
  case (Go e')
  then obtain key where wt: "well_typed e'" and key: "py_key (item e' ''source'') = Some key"
    using resolve_source_ok [OF assms] by auto
  from extract_ok [OF wt] show ?thesis
    by (auto simp: try_body_def Go key Let_def add_article_text)
qed

lemma get_alignment_texts_returns:
  "list_all well_typed es \<Longrightarrow> \<exists>d'. get_alignment_texts E d es = Inr d'"
proof (induction es arbitrary: d)
  case Nil
  show ?case by simp
next
  case (Cons e es)
  then have wt: "well_typed e" and rest: "list_all well_typed es" by simp_all
  obtain d1 x where tb: "try_body E d e = (d1, x)" by (cases "try_body E d e")
  have c: "caught x" using try_body_caught [OF wt, of E d] tb by simp
  show ?case
  proof (cases x rule: caught.cases)
    case 1
    then show ?thesis using tb Cons.IH [OF rest, of d1] by simp
  next
    case (2 reason)
    then show ?thesis using tb Cons.IH [OF rest, of "tally d1 reason"] by simp
  qed (use c in simp_all)
qed

lemma get_alignment_texts_append:
  "get_alignment_texts E d pre = Inr d1 \<Longrightarrow>
     get_alignment_texts E d (pre @ post) = get_alignment_texts E d1 post"
proof (induction pre arbitrary: d)
  case Nil
  then show ?case by simp
next
  case (Cons e pre)
  then show ?case
    by (auto split: prod.splits option.splits exn.splits)
qed

lemma try_body_error_count: "error_count_dict (fst (try_body E d e)) = error_count_dict d"
  by (auto simp: try_body_def add_article_def count_article_def Let_def
      split: source_outcome.splits if_splits option.splits sum.splits prod.splits json.splits)

lemma tally_dom: "dom (error_count_dict (tally d r)) = insert r (dom (error_count_dict d))"
  by (simp add: tally_def)

lemma error_keys_kept:
  "get_alignment_texts E d es = Inr fin \<Longrightarrow> dom (error_count_dict d) \<subseteq> dom (error_count_dict fin)"
proof (induction es arbitrary: d)
  case Nil
  then show ?case by simp
next
  case (Cons e es)
  obtain d1 x where tb: "try_body E d e = (d1, x)" by (cases "try_body E d e")
  have ec: "error_count_dict d1 = error_count_dict d" using try_body_error_count [of E d e] tb by simp
  show ?case
  proof (cases x)
    case None
    then have "get_alignment_texts E d1 es = Inr fin" using Cons.prems tb by simp
    from Cons.IH [OF this] show ?thesis using ec by simp
  next
    case (Some y)
    show ?thesis
    proof (cases y)
      case (MissingDataException reason)
      then have "get_alignment_texts E (tally d1 reason) es = Inr fin"
        using Cons.prems tb Some by simp
      from Cons.IH [OF this] show ?thesis using ec by (auto simp: tally_dom)
    qed (use Cons.prems tb Some in simp_all)
  qed
qed


lemma rejection_tallied_aux:
  assumes "list_all well_typed (pre @ bad # post)"
    and "get_alignment_texts E d pre = Inr d1"
    and "try_body E d1 bad = (d2, Some (MissingDataException reason))"
  shows "\<exists>fin. get_alignment_texts E d (pre @ bad # post) = Inr fin
           \<and> get_alignment_texts E (tally d2 reason) post = Inr fin
           \<and> error_count_dict (tally d2 reason) reason
               = Some (count_of (error_count_dict d1) reason + 1)
           \<and> reason \<in> dom (error_count_dict fin)"
proof -
  obtain fin where fin: "get_alignment_texts E d (pre @ bad # post) = Inr fin"
    using get_alignment_texts_returns [OF assms(1)] by blast
  have step: "get_alignment_texts E d (pre @ bad # post) = get_alignment_texts E (tally d2 reason) post"
    using get_alignment_texts_append [OF assms(2)] assms(3) by simp
  have ec: "error_count_dict d2 = error_count_dict d1"
    using try_body_error_count [of E d1 bad] assms(3) by simp
  have "reason \<in> dom (error_count_dict (tally d2 reason))" by (simp add: tally_dom)
  then have "reason \<in> dom (error_count_dict fin)"
    using error_keys_kept [of E "tally d2 reason" post fin] fin step by auto
  then show ?thesis using fin step ec by (auto simp: tally_def count_of_def)
qed









section \<open>Lemmas about the embedding run\<close>

text \<open>
  The decorator stops after five attempts: the outcome of a call that starts at
  attempt \<open>a\<close> depends on the attempts \<open>a\<close> to \<open>stop\<close> only, and when all of them fail
  the outcome is \<^verbatim>\<open>RetryError\<close>.
\<close>

lemma retry_attempts_only_upto_stop:
  "(\<And>k. a \<le> k \<Longrightarrow> k \<le> stop \<Longrightarrow> f k = g k) \<Longrightarrow> a \<le> stop \<Longrightarrow>
     retry_attempts stop a f = retry_attempts stop a g"
proof (induction stop a f rule: retry_attempts.induct)
  case (1 stop a f)
  have fa: "f a = g a" using "1.prems" by simp
  show ?case
  proof (cases "f a")
    case (Some v)
    then show ?thesis using fa
      by (subst retry_attempts.simps, subst (2) retry_attempts.simps) simp
  next
    case None
    show ?thesis
    proof (cases "stop \<le> a")
      case True
      then show ?thesis using None fa
        by (subst retry_attempts.simps, subst (2) retry_attempts.simps) simp
    next
      case False
      have "retry_attempts stop (a + 1) f = retry_attempts stop (a + 1) g"
        using "1.IH" [OF None False] "1.prems" False by simp
      then show ?thesis using None fa False
        by (subst retry_attempts.simps, subst (2) retry_attempts.simps) simp
    qed
  qed
qed

lemma retry_fails_from:
  "(\<And>k. a \<le> k \<Longrightarrow> k \<le> stop \<Longrightarrow> call k = None) \<Longrightarrow> a \<le> stop \<Longrightarrow>
     retry_attempts stop a call = Inl RetryError"
proof (induction stop a call rule: retry_attempts.induct)
  case (1 stop a call)
  have none: "call a = None" using "1.prems" by simp
  show ?case
  proof (cases "stop \<le> a")
    case True
    then show ?thesis using none by (subst retry_attempts.simps) simp
  next
    case False
    have "retry_attempts stop (a + 1) call = Inl RetryError"
      using "1.IH" [OF none False] "1.prems" False by simp
    then show ?thesis using none False by (subst retry_attempts.simps) simp
  qed
qed

lemma retry_all_fail:
  assumes "\<And>k. 1 \<le> k \<Longrightarrow> k \<le> 5 \<Longrightarrow> call k = None"
  shows "retry_attempts 5 1 call = Inl RetryError"
  using assms by (intro retry_fails_from) simp_all


lemma collect_length: "length (fst (collect l m cs)) = length m"
proof (induction cs arbitrary: m)
  case Nil then show ?case by simp
next
  case (Cons c cs)
  show ?case
  proof (cases c)
    case (Inl x) then show ?thesis by simp
  next
    case (Inr p)
    obtain i v where p: "p = (i, v)" by (cases p)
    show ?thesis using Cons.IH Inr p
      by (auto simp: assign_row_def split: sum.splits if_splits)
  qed
qed

lemma collect_untouched:
  "\<forall>v. Inr (i, v) \<notin> set cs \<Longrightarrow> fst (collect l m cs) ! i = m ! i"
proof (induction cs arbitrary: m)
  case Nil then show ?case by simp
next
  case (Cons c cs)
  show ?case
  proof (cases c)
    case (Inl x) then show ?thesis by simp
  next
    case (Inr p)
    obtain j v where p: "p = (j, v)" by (cases p)
    have ji: "j \<noteq> i" using Cons.prems Inr p by auto
    have rest: "\<forall>v. Inr (i, v) \<notin> set cs" using Cons.prems by auto
    show ?thesis using Cons.IH [OF rest] Inr p ji
      by (auto simp: assign_row_def split: sum.splits if_splits)
  qed
qed

lemma collect_raises: "Inl x \<in> set cs \<Longrightarrow> snd (collect l m cs) \<noteq> None"
proof (induction cs arbitrary: m)
  case Nil then show ?case by simp
next
  case (Cons c cs)
  show ?case
  proof (cases c)
    case (Inl y) then show ?thesis by simp
  next
    case (Inr p)
    obtain j v where p: "p = (j, v)" by (cases p)
    have "Inl x \<in> set cs" using Cons.prems Inr by auto
    then show ?thesis using Cons.IH Inr p
      by (auto split: sum.splits)
  qed
qed





lemma futures_eq:
  "map (run_call E) (submitted_calls d)
     = map (\<lambda>i. get_embedding_at_index E (embedding_strings d ! i) i 0)
           [0..<length (embedding_strings d)]"
  by (rule nth_equalityI)
     (simp_all add: submitted_calls_def run_call_def nth_enumerate_eq)

lemma get_embeddings_unfold:
  "get_embeddings E d =
     (d\<lparr> embeddings := Some (fst (collect (LEN_EMBEDDINGS E)
            (zeros (length (embedding_strings d)) (LEN_EMBEDDINGS E))
            (as_completed E (map (run_call E) (submitted_calls d))))) \<rparr>,
      snd (collect (LEN_EMBEDDINGS E)
            (zeros (length (embedding_strings d)) (LEN_EMBEDDINGS E))
            (as_completed E (map (run_call E) (submitted_calls d)))))"
  by (simp add: get_embeddings_def Let_def)


lemma embed_all_failure:
  assumes perm: "\<And>fs. mset (as_completed E fs) = mset fs"
    and i: "i < length (embedding_strings d)"
    and fails: "\<And>k. 1 \<le> k \<Longrightarrow> k \<le> 5 \<Longrightarrow>
                  Embedding_create E i k (embedding_strings d ! i) = None"
  shows "snd (get_embeddings E d) \<noteq> None
       \<and> (\<exists>m. embeddings (fst (get_embeddings E d)) = Some m
              \<and> length m = length (embedding_strings d)
              \<and> m ! i = replicate (LEN_EMBEDDINGS E) 0)"
proof -
  let ?n = "length (embedding_strings d)"
  let ?l = "LEN_EMBEDDINGS E"
  let ?futures = "map (run_call E) (submitted_calls d)"
  let ?cs = "as_completed E ?futures"
  have set_cs: "set ?cs = set ?futures" using perm [of ?futures] by (metis mset_eq_setD)
  have "retry_attempts 5 1 (\<lambda>k. Embedding_create E i k (embedding_strings d ! i)) = Inl RetryError"
    using fails by (intro retry_all_fail) simp
  then have failed: "get_embedding_at_index E (embedding_strings d ! i) i 0 = Inl RetryError"
    by (simp add: get_embedding_at_index_def bind_exn_def)
  then have "Inl RetryError \<in> set ?futures"
    unfolding futures_eq using i by (auto simp: image_iff intro!: bexI [of _ i])
  then have raises: "snd (collect ?l (zeros ?n ?l) ?cs) \<noteq> None"
    using set_cs collect_raises by simp
  have "\<forall>v. Inr (i, v) \<notin> set ?futures"
  proof (intro allI notI)
    fix v assume "Inr (i, v) \<in> set ?futures"
    then obtain j where j: "j < ?n"
      and eq: "get_embedding_at_index E (embedding_strings d ! j) j 0 = Inr (i, v)"
      unfolding futures_eq by auto
    then have "j = i"
      by (auto simp: get_embedding_at_index_def bind_exn_def split: sum.splits)
    then show False using eq failed by simp
  qed
  then have "\<forall>v. Inr (i, v) \<notin> set ?cs" using set_cs by simp
  then have "fst (collect ?l (zeros ?n ?l) ?cs) ! i = zeros ?n ?l ! i"
    by (rule collect_untouched)
  then have row: "fst (collect ?l (zeros ?n ?l) ?cs) ! i = replicate ?l 0"
    using i by (simp add: zeros_def)
  have len: "length (fst (collect ?l (zeros ?n ?l) ?cs)) = ?n"
    by (simp add: collect_length zeros_def)
  show ?thesis using raises row len by (simp add: get_embeddings_unfold)
qed


section \<open>The claims\<close>

lemmas ingest_defs =
  try_body_def resolve_source_def set_source_def present_def item_def filtered_out_def
  count_article_def add_article_def extract_info_from_article_def get_title_def
  get_author_def get_date_published_def long_enough_def get_url_def get_tags_def
  get_text_def bind_exn_def make_signature_def signature_part_def py_format_def
  tally_def count_of_def is_space_def Let_def

lemmas fixture_defs =
  example_env_def failing_env_def default_dataset_def two_blocks_def one_vector_def
  new_dataset_def init_articles_count_def initial_error_count_dict_def
  record_without_text_def valid_record_def record_without_source_def
  record_numeric_url_def record_null_source_def record_null_url_def empty_files_def
  record_empty_link_def printout_record_def
  cold_takes_printout_def

lemmas embedding_defs =
  get_embeddings_def submitted_calls_def run_call_def get_embedding_at_index_def
  bind_exn_def zeros_def assign_row_def sleep_before_request_def Let_def

subsection \<open>C1: one record without text and one valid record\<close>




subsection \<open>C2: the delay before a request\<close>

text \<open>
  Claim C2 asks for a wait of at least \<^verbatim>\<open>60 / rate_limit_per_minute\<close> seconds before every
  embedding request. The constructor computes that delay, and
  \<^verbatim>\<open>get_embedding_at_index\<close> sleeps for its parameter \<^verbatim>\<open>delay_in_seconds\<close>, but
  \<^verbatim>\<open>get_embeddings\<close> submits every call without that parameter: with the default rate
  limit of 3500 the delay is 3/175 seconds, and each of the two calls submitted for two
  blocks sleeps 0 seconds.
\<close>

theorem submitted_calls_sleep_zero:
  "map sleep_before_request (submitted_calls two_blocks) = [0, 0]
   \<and> delay_in_seconds two_blocks = 3 / 175"
  by (simp add: embedding_defs fixture_defs enumerate_eq_zip)

subsection \<open>C3: a block whose request fails every attempt\<close>

text \<open>
  Claim C3, as amended. If the request of one block fails at each of its five attempts,
  \<^verbatim>\<open>get_embeddings\<close> fails: an exception leaves it, whatever the order of completion.
  The matrix allocated at the start stays on the dataset with one row per block, and
  the row of the failed block is the zero vector it was allocated with.
\<close>

theorem embed_all_failure_propagates:
  assumes "\<And>fs. mset (as_completed E fs) = mset fs"
    and "i < length (embedding_strings d)"
    and "\<And>k. 1 \<le> k \<Longrightarrow> k \<le> 5 \<Longrightarrow>
           Embedding_create E i k (embedding_strings d ! i) = None"
  shows "snd (get_embeddings E d) \<noteq> None
       \<and> (\<exists>m. embeddings (fst (get_embeddings E d)) = Some m
              \<and> length m = length (embedding_strings d)
              \<and> m ! i = replicate (LEN_EMBEDDINGS E) 0)"
  using assms by (rule embed_all_failure)

theorem embed_all_failure_propagates_witness:
  "snd (get_embeddings failing_env two_blocks) \<noteq> None
   \<and> (\<exists>m. embeddings (fst (get_embeddings failing_env two_blocks)) = Some m
          \<and> length m = 2 \<and> m ! 0 = [0, 0])"
proof -
  have h1: "\<And>fs. mset (as_completed failing_env fs) = mset fs"
    by (simp add: fixture_defs)
  have h2: "0 < length (embedding_strings two_blocks)"
    by (simp add: fixture_defs)
  have h3: "\<And>k. 1 \<le> k \<Longrightarrow> k \<le> 5 \<Longrightarrow>
              Embedding_create failing_env 0 k (embedding_strings two_blocks ! 0) = None"
    by (simp add: fixture_defs)
  have l: "length (embedding_strings two_blocks) = 2" "LEN_EMBEDDINGS failing_env = 2"
    by (simp_all add: fixture_defs)
  show ?thesis
    using embed_all_failure_propagates [OF h1 h2 h3] l
    by (simp add: numeral_2_eq_2)
qed

text \<open>
  The claim as stated says that no block without an embedding is left holding a zero
  vector. When block 0 of two blocks fails every attempt, the call raises
  \<^verbatim>\<open>RetryError\<close> and the dataset keeps the matrix whose row 0 is the zero vector.
\<close>

theorem failed_block_zero_row_counterexample:
  "snd (get_embeddings failing_env two_blocks) = Some RetryError
   \<and> embeddings (fst (get_embeddings failing_env two_blocks)) = Some [[0, 0], [1, 1]]"
  by (simp add: embedding_defs fixture_defs enumerate_eq_zip numeral_2_eq_2)

subsection \<open>C4: the matrix is aligned with the blocks\<close>



subsection \<open>C6: alternative field names\<close>

text \<open>
  Claim C6, as amended. Every attribute is read from a fixed ordered list of alternative
  field names: \<^verbatim>\<open>title\<close>, \<^verbatim>\<open>book_title\<close> for the title; \<^verbatim>\<open>author\<close>, \<^verbatim>\<open>authors\<close> for the
  author; \<^verbatim>\<open>date_published\<close>, \<^verbatim>\<open>published\<close> for the date; \<^verbatim>\<open>link\<close>, \<^verbatim>\<open>url\<close>, \<^verbatim>\<open>doi\<close> for
  the URL; \<^verbatim>\<open>tags\<close>; \<^verbatim>\<open>text\<close>. For the title the first field that is present decides
  (no title when it is empty). For the author, the URL, the tags and the text the first
  field that is present with a non-empty value decides, and for the date the first field
  that is present, non-empty and at least 10, respectively 16, long, cut to that length:
  a field that is present but empty, null or too short is passed over for the next
  name. Without a usable text the record is rejected.
\<close>

theorem first_usable_field_wins:
  "extract_info_from_article a =
     bind_exn (title_of_first_present a) (\<lambda>title.
     bind_exn (first_long a [(''date_published'', 10), (''published'', 16)]) (\<lambda>date_published.
     bind_exn (get_tags [(''tags'', first_truthy a [''tags''])]) (\<lambda>tags.
       if truthy (first_truthy a [''text''])
       then Inr (title, first_truthy a [''author'', ''authors''], date_published,
                 first_truthy a [''link'', ''url'', ''doi''], tags, first_truthy a [''text''])
       else Inl (MissingDataException ''Entry has no text.''))))"
  unfolding extract_info_from_article_def
    title_first_present [symmetric] date_first_long [symmetric]
    author_first_truthy [symmetric] url_first_truthy [symmetric]
    tags_single_field [symmetric]
  by (simp add: bind_exn_def text_first_truthy split: sum.splits)

theorem first_usable_field_wins_witness:
  "extract_info_from_article record_empty_link
     = Inr (JNull, JNull, JNull, JStr ''https://x.org'', JNull, JStr ''t'')"
  using first_usable_field_wins [of record_empty_link]
  by (simp add: title_of_first_present_def get_tags_def present_def item_def bind_exn_def
      fixture_defs)

text \<open>
  The claim as stated lets the first field that is present decide. In a record whose
  \<^verbatim>\<open>link\<close> is the empty string, the first field present among \<^verbatim>\<open>link\<close>, \<^verbatim>\<open>url\<close>, \<^verbatim>\<open>doi\<close>
  is \<^verbatim>\<open>link\<close>, and the URL extracted is the value of \<^verbatim>\<open>url\<close>.
\<close>

theorem first_present_field_counterexample:
  "first_present record_empty_link [''link'', ''url'', ''doi''] = Some (JStr [])
   \<and> extract_info_from_article record_empty_link
       = Inr (JNull, JNull, JNull, JStr ''https://x.org'', JNull, JStr ''t'')"
  by (simp add: ingest_defs fixture_defs)

subsection \<open>C7: a rejected record does not end the pass\<close>

text \<open>
  Claim C7, as amended. Take a corpus in which every record has a \<^verbatim>\<open>source\<close> that is
  absent or hashable (a string, a number, a boolean or null); when the \<^verbatim>\<open>source\<close> is
  absent, a \<^verbatim>\<open>url\<close> that is absent or a string; \<^verbatim>\<open>title\<close>, \<^verbatim>\<open>book_title\<close>,
  \<^verbatim>\<open>date_published\<close>, \<^verbatim>\<open>published\<close> and \<^verbatim>\<open>text\<close> each absent, null or a string; and
  \<^verbatim>\<open>tags\<close> that are not a list, or a list of objects each with a string \<^verbatim>\<open>term\<close>. A single
  ingestion pass over such a corpus never aborts. When one of its records is rejected,
  the reason string is tallied as a key of the error counts, created when it is new,
  with one more than its count before the record, the pass continues with the remaining
  records, and the key is still there when the pass returns.
\<close>

theorem rejection_tallied_and_pass_continues:
  assumes "list_all well_typed es"
  shows "(\<exists>fin. get_alignment_texts E d es = Inr fin)
       \<and> (\<forall>pre bad post d1 d2 reason.
            es = pre @ bad # post \<longrightarrow>
            get_alignment_texts E d pre = Inr d1 \<longrightarrow>
            try_body E d1 bad = (d2, Some (MissingDataException reason)) \<longrightarrow>
            (\<exists>fin. get_alignment_texts E d es = Inr fin
               \<and> get_alignment_texts E (tally d2 reason) post = Inr fin
               \<and> error_count_dict (tally d2 reason) reason
                   = Some (count_of (error_count_dict d1) reason + 1)
               \<and> reason \<in> dom (error_count_dict fin)))"
proof (intro conjI allI impI)
  show "\<exists>fin. get_alignment_texts E d es = Inr fin"
    using assms by (rule get_alignment_texts_returns)
next
  fix pre bad post d1 d2 reason
  assume es: "es = pre @ bad # post"
    and pre: "get_alignment_texts E d pre = Inr d1"
    and bad: "try_body E d1 bad = (d2, Some (MissingDataException reason))"
  have wt: "list_all well_typed (pre @ bad # post)" using assms es by simp
  show "\<exists>fin. get_alignment_texts E d es = Inr fin
          \<and> get_alignment_texts E (tally d2 reason) post = Inr fin
          \<and> error_count_dict (tally d2 reason) reason
              = Some (count_of (error_count_dict d1) reason + 1)
          \<and> reason \<in> dom (error_count_dict fin)"
    unfolding es using wt pre bad by (rule rejection_tallied_aux)
qed

theorem rejection_tallied_and_pass_continues_witness:
  "\<exists>fin. get_alignment_texts example_env default_dataset
            [record_without_source, record_null_source, valid_record] = Inr fin
         \<and> get_alignment_texts example_env (tally default_dataset ''Entry has no source.'')
              [record_null_source, valid_record] = Inr fin
         \<and> error_count_dict (tally default_dataset ''Entry has no source.'')
              ''Entry has no source.'' = Some 1
         \<and> ''Entry has no source.'' \<in> dom (error_count_dict fin)"
proof -
  have h1: "list_all well_typed [record_without_source, record_null_source, valid_record]"
    by (simp add: well_typed_def fixture_defs present_def)
  have h0: "[record_without_source, record_null_source, valid_record]
              = [] @ record_without_source # [record_null_source, valid_record]"
    by simp
  have h2: "get_alignment_texts example_env default_dataset [] = Inr default_dataset"
    by simp
  have h3: "try_body example_env default_dataset record_without_source
              = (default_dataset, Some (MissingDataException ''Entry has no source.''))"
    by (simp add: try_body_def resolve_source_def present_def fixture_defs)
  have c0: "count_of (error_count_dict default_dataset) ''Entry has no source.'' = 0"
    by (simp add: fixture_defs count_of_def)
  from rejection_tallied_and_pass_continues [OF h1, of example_env default_dataset]
  have "\<exists>fin. get_alignment_texts example_env default_dataset
                 [record_without_source, record_null_source, valid_record] = Inr fin
          \<and> get_alignment_texts example_env (tally default_dataset ''Entry has no source.'')
               [record_null_source, valid_record] = Inr fin
          \<and> error_count_dict (tally default_dataset ''Entry has no source.'')
               ''Entry has no source.''
              = Some (count_of (error_count_dict default_dataset) ''Entry has no source.'' + 1)
          \<and> ''Entry has no source.'' \<in> dom (error_count_dict fin)"
    using h0 h2 h3 by blast
  then show ?thesis using c0 by simp
qed

text \<open>
  The claim as stated covers every shape of a missing or wrongly typed field. A record
  without \<^verbatim>\<open>source\<close> whose \<^verbatim>\<open>url\<close> is a number, or null, makes the slice
  \<^verbatim>\<open>entry['url'][:24]\<close> raise \<^verbatim>\<open>TypeError\<close>, which the pass does not catch: the pass
  aborts and the valid record after it is not processed.
\<close>

theorem wrongly_typed_field_counterexample:
  "get_alignment_texts example_env default_dataset [record_numeric_url, valid_record]
     = Inl TypeError
   \<and> get_alignment_texts example_env default_dataset [record_null_url, valid_record]
       = Inl TypeError"
  by (simp add: try_body_def resolve_source_def present_def item_def fixture_defs)

subsection \<open>C8: saving and loading\<close>

text \<open>
  Claim C8, as amended. For every dataset that holds a matrix and every path, saving
  writes to the path itself when it ends in \<^verbatim>\<open>.npy\<close> and to the path with \<^verbatim>\<open>.npy\<close>
  appended otherwise. When that file can be created and written, saving succeeds and
  loading from the path that was written yields the same matrix, with the same number
  of vectors and the same values; so saving to a path that ends in \<^verbatim>\<open>.npy\<close> and loading
  from that same path gives the store back. When the file cannot be created, as when
  its directory does not exist, saving raises the exception of the failed open.
\<close>

theorem save_load_roundtrip:
  assumes "embeddings d = Some m"
  shows "(write_error fs (npy_path path) = None \<longrightarrow>
            (\<exists>fs'. save_embeddings d fs path = Inr fs'
               \<and> load_embeddings d' fs' (npy_path path) = Inr (d'\<lparr> embeddings := Some m \<rparr>)
               \<and> (endswith path ''.npy'' \<longrightarrow> save_then_load d fs path = Inr d)))
       \<and> (\<forall>x. write_error fs (npy_path path) = Some x \<longrightarrow>
                save_embeddings d fs path = Inl x)"
  using assms
  by (simp add: save_then_load_def save_embeddings_def load_embeddings_def np_save_def
      np_load_def bind_exn_def npy_path_def)

theorem save_load_roundtrip_witness:
  "embeddings one_vector = Some [[1, 2]]
   \<and> endswith ''embeddings.npy'' ''.npy''
   \<and> write_error empty_files (npy_path ''embeddings.npy'') = None
   \<and> save_then_load one_vector empty_files ''embeddings.npy'' = Inr one_vector
   \<and> write_error empty_files (npy_path ''no_such_dir/embeddings.npy'')
       = Some FileNotFoundError
   \<and> save_embeddings one_vector empty_files ''no_such_dir/embeddings.npy''
       = Inl FileNotFoundError"
proof -
  have h: "embeddings one_vector = Some [[1, 2]]"
    by (simp add: fixture_defs)
  have e: "endswith ''embeddings.npy'' ''.npy''"
    by (simp add: endswith_def)
  have w: "write_error empty_files (npy_path ''embeddings.npy'') = None"
    by (simp add: npy_path_def endswith_def fixture_defs)
  have n: "write_error empty_files (npy_path ''no_such_dir/embeddings.npy'')
             = Some FileNotFoundError"
    by (simp add: npy_path_def endswith_def fixture_defs)
  from save_load_roundtrip
    [OF h, where fs = empty_files and path = "''embeddings.npy''" and d' = one_vector] w e
  have ok: "save_then_load one_vector empty_files ''embeddings.npy'' = Inr one_vector"
    by blast
  from save_load_roundtrip
    [OF h, where fs = empty_files and path = "''no_such_dir/embeddings.npy''"
       and d' = one_vector] n
  have bad: "save_embeddings one_vector empty_files ''no_such_dir/embeddings.npy''
               = Inl FileNotFoundError"
    by blast
  show ?thesis using h e w n ok bad by simp
qed

text \<open>
  The claim as stated holds for every path. Saving to the path \<^verbatim>\<open>embeddings\<close> writes the
  file \<^verbatim>\<open>embeddings.npy\<close>, and loading from \<^verbatim>\<open>embeddings\<close> finds no file.
\<close>

theorem save_load_same_path_counterexample:
  "save_then_load one_vector empty_files ''embeddings'' = Inl FileNotFoundError"
  by (simp add: save_then_load_def save_embeddings_def load_embeddings_def np_save_def
      np_load_def bind_exn_def endswith_def npy_path_def fixture_defs)

subsection \<open>C9: printouts are skipped\<close>

text \<open>
  Claim C9, as amended. Every record that lacks a \<^verbatim>\<open>source\<close> field, contains both a
  \<^verbatim>\<open>question\<close> and an \<^verbatim>\<open>answer\<close> field, and whose \<^verbatim>\<open>url\<close> is not
  \<^verbatim>\<open>https://www.cold-takes.com/\<close> is skipped by the ingestion pass: the dataset is left as
  it was, so the record is not counted in the article statistics, adds no metadata and
  no blocks, and the pass goes on with the next record.
\<close>

theorem printouts_skipped:
  assumes "\<not> present e ''source''" "present e ''question''" "present e ''answer''"
    and "\<not> (present e ''url'' \<and> item e ''url'' = JStr ''https://www.cold-takes.com/'')"
  shows "try_body E d e = (d, None)
       \<and> get_alignment_texts E d (e # es) = get_alignment_texts E d es"
proof -
  have "resolve_source e = Skip" using assms by (auto simp: resolve_source_def)
  then have "try_body E d e = (d, None)" by (simp add: try_body_def)
  then show ?thesis by simp
qed

theorem printouts_skipped_witness:
  "try_body example_env default_dataset printout_record = (default_dataset, None)
   \<and> get_alignment_texts example_env default_dataset [printout_record] = Inr default_dataset"
proof -
  have h1: "\<not> present printout_record ''source''"
    and h2: "present printout_record ''question''"
    and h3: "present printout_record ''answer''"
    and h4: "\<not> (present printout_record ''url''
               \<and> item printout_record ''url'' = JStr ''https://www.cold-takes.com/'')"
    by (simp_all add: present_def fixture_defs)
  show ?thesis
    using printouts_skipped [OF h1 h2 h3 h4, of example_env default_dataset "[]"] by simp
qed

text \<open>
  The claim as stated skips such a record unconditionally. A record without \<^verbatim>\<open>source\<close>
  that has a \<^verbatim>\<open>question\<close>, an \<^verbatim>\<open>answer\<close> and the \<^verbatim>\<open>url\<close> \<^verbatim>\<open>https://www.cold-takes.com/\<close>
  is taken as a Cold Takes article: it is counted, and it adds a metadata tuple and a
  block.
\<close>

theorem printout_not_skipped_counterexample:
  "total_articles_count (fst (try_body example_env default_dataset cold_takes_printout)) = 1
   \<and> length (metadata (fst (try_body example_env default_dataset cold_takes_printout))) = 1
   \<and> embedding_strings (fst (try_body example_env default_dataset cold_takes_printout))
       = [''URL: https://www.cold-takes.com/|t'']"
  by (simp add: ingest_defs fixture_defs update_conv')

subsection \<open>C10: a rejected record leaves the lists alone\<close>

text \<open>
  Claim C10. For every record that the ingestion pass rejects with a missing-data error,
  whatever the reason, the metadata list and the list of block texts are, after the
  rejection has been tallied, exactly what they were before the record was processed,
  and the pass goes on with the next record.
\<close>

theorem rejected_record_leaves_lists:
  assumes "try_body E d e = (d', Some (MissingDataException reason))"
  shows "get_alignment_texts E d (e # es) = get_alignment_texts E (tally d' reason) es
       \<and> metadata (tally d' reason) = metadata d
       \<and> embedding_strings (tally d' reason) = embedding_strings d"
  using assms try_body_missing_data [OF assms] by (simp add: tally_keeps)

theorem rejected_record_leaves_lists_witness:
  "try_body example_env default_dataset record_without_text
     = (count_article (default_dataset\<lparr> rng_pos := 1 \<rparr>) (JStr ''arxiv''),
        Some (MissingDataException ''Entry has no text.''))
   \<and> metadata (tally (count_article (default_dataset\<lparr> rng_pos := 1 \<rparr>) (JStr ''arxiv''))
        ''Entry has no text.'') = metadata default_dataset
   \<and> embedding_strings (tally (count_article (default_dataset\<lparr> rng_pos := 1 \<rparr>) (JStr ''arxiv''))
        ''Entry has no text.'') = embedding_strings default_dataset"
proof -
  have h: "try_body example_env default_dataset record_without_text
             = (count_article (default_dataset\<lparr> rng_pos := 1 \<rparr>) (JStr ''arxiv''),
                Some (MissingDataException ''Entry has no text.''))"
    by (simp add: ingest_defs fixture_defs)
  show ?thesis
    using rejected_record_leaves_lists [OF h, of "[]"] h by simp
qed

end
